theory Spec2Isabelle
  imports Main
begin

section \<open>The joke bot of jokebot.py\<close>

text \<open>
  The program is a console loop built as a graph of five nodes over one shared state.
  Each node is a Python function from the state to a partial update (a dict); the graph
  library merges the update into the state and follows the edges. Console input, console
  output, the random generator and the joke library are collaborators of the program:
  the console is a list of lines still to be read and a list of what was written, the
  random generator and the joke library are parameters.

  Python strings are modelled as \<^typ>\<open>string\<close>, one \<^typ>\<open>char\<close> for one code point
  below 256.
\<close>

subsection \<open>Data model\<close>

record Joke =
  "text" :: string
  category :: string
  approved :: bool

record JokeState =
  jokes :: "Joke list"
  jokes_choice :: string
  category :: string
  language :: string
  quit :: bool

text \<open>The state \<^verbatim>\<open>JokeState()\<close> with every field at its default.\<close>

definition JokeState0 :: JokeState where
  "JokeState0 =
     \<lparr>jokes = [], jokes_choice = ''n'', category = ''neutral'', language = ''en'',
      quit = False\<rparr>"

text \<open>
  What a node returns: a dict holding some of the state's keys. A key that is absent is
  \<open>None\<close>.
\<close>

record update =
  u_jokes :: "Joke list option"
  u_jokes_choice :: "string option"
  u_category :: "string option"
  u_quit :: "bool option"

definition empty_update :: update where
  "empty_update = \<lparr>u_jokes = None, u_jokes_choice = None, u_category = None, u_quit = None\<rparr>"

datatype error = EOFError | IndexError | KeyError | JokeSourceError | GraphRecursionError

subsection \<open>The collaborators\<close>

text \<open>
  One constructor for each thing the program writes to the console, with the values that
  are formatted into the line. \<open>Menu_prompt\<close> and \<open>Category_prompt\<close> are the two prompts
  of \<^verbatim>\<open>input\<close>.
\<close>

datatype msg =
    Menu_prompt
  | Invalid_input_defaulting
  | Writer_wrote string
  | Critic_rejected
  | Critic_approved
  | Joke_text string
  | Category_prompt
  | Invalid_selection
  | Please_enter_a_number
  | Category_changed string
  | Exiting

text \<open>
  The world outside the program: the lines the user will type, what has been written, and
  how many times the random generator and the joke library have been asked.
\<close>

record world =
  stdin :: "string list"
  stdout :: "msg list"
  ticks :: nat

text \<open>
  \<open>pick env k\<close> is the raw number the random generator gives at its \<open>k\<close>-th use;
  \<open>joke env k lang cat\<close> is what \<^verbatim>\<open>get_joke(language=lang, category=cat)\<close> gives at
  that moment, a text or a failure.
\<close>

record env =
  pick :: "nat \<Rightarrow> nat"
  joke :: "nat \<Rightarrow> string \<Rightarrow> string \<Rightarrow> error + string"

definition print :: "msg \<Rightarrow> world \<Rightarrow> world" where
  "print m w = w\<lparr>stdout := stdout w @ [m]\<rparr>"

text \<open>\<^verbatim>\<open>input(prompt)\<close> writes the prompt and reads one line; at end of input it raises.\<close>

definition py_input :: "msg \<Rightarrow> world \<Rightarrow> error + (string \<times> world)" where
  "py_input prompt w =
     (case stdin w of
        [] \<Rightarrow> Inl EOFError
      | l # ls \<Rightarrow> Inr (l, (print prompt w)\<lparr>stdin := ls\<rparr>))"

text \<open>\<^verbatim>\<open>random.choice(xs)\<close>: an element at an index below the length.\<close>

definition random_choice :: "env \<Rightarrow> 'a list \<Rightarrow> world \<Rightarrow> error + ('a \<times> world)" where
  "random_choice e xs w =
     (if xs = [] then Inl IndexError
      else Inr (xs ! (pick e (ticks w) mod length xs), w\<lparr>ticks := ticks w + 1\<rparr>))"

definition get_joke :: "env \<Rightarrow> string \<Rightarrow> string \<Rightarrow> world \<Rightarrow> error + (string \<times> world)" where
  "get_joke e lang cat w =
     (case joke e (ticks w) lang cat of
        Inl err \<Rightarrow> Inl err
      | Inr t \<Rightarrow> Inr (t, w\<lparr>ticks := ticks w + 1\<rparr>))"

subsection \<open>String methods\<close>

text \<open>\<^verbatim>\<open>str.isspace\<close> on one character, for the code points below 256.\<close>

definition isspace :: "char \<Rightarrow> bool" where
  "isspace c =
     (let n = (of_char c :: nat)
      in (9 \<le> n \<and> n \<le> 13) \<or> (28 \<le> n \<and> n \<le> 32) \<or> n = 133 \<or> n = 160)"

definition strip :: "string \<Rightarrow> string" where
  "strip s = rev (dropWhile isspace (rev (dropWhile isspace s)))"

definition lower_char :: "char \<Rightarrow> char" where
  "lower_char c =
     (let n = (of_char c :: nat)
      in if (65 \<le> n \<and> n \<le> 90) \<or> (192 \<le> n \<and> n \<le> 222 \<and> n \<noteq> 215)
         then char_of (n + 32) else c)"

definition lower :: "string \<Rightarrow> string" where
  "lower s = map lower_char s"

text \<open>
  \<^verbatim>\<open>int(s)\<close> on a string, base ten: white space around, one optional sign, then digits
  with single underscores between them. \<open>None\<close> is ValueError. The interpreter also
  refuses a text of more than 4300 digits with ValueError (its default limit).
\<close>

definition int_space :: "char \<Rightarrow> bool" where
  "int_space c =
     (let n = (of_char c :: nat)
      in (9 \<le> n \<and> n \<le> 13) \<or> n = 32 \<or> n = 133 \<or> n = 160)"

definition is_digit :: "char \<Rightarrow> bool" where
  "is_digit c = (let n = (of_char c :: nat) in 48 \<le> n \<and> n \<le> 57)"

fun scan_digits :: "char \<Rightarrow> string \<Rightarrow> bool" where
  "scan_digits prev [] = (prev \<noteq> CHR ''_'')"
| "scan_digits prev (c # cs) =
     (if c = CHR ''_'' then prev \<noteq> CHR ''_'' \<and> scan_digits c cs
      else is_digit c \<and> scan_digits c cs)"

definition int_body_ok :: "string \<Rightarrow> bool" where
  "int_body_ok b = (b \<noteq> [] \<and> hd b \<noteq> CHR ''_'' \<and> scan_digits (CHR 0x00) b)"

definition int_max_str_digits :: nat where
  "int_max_str_digits = 4300"

definition int_value :: "string \<Rightarrow> int" where
  "int_value b = foldl (\<lambda>acc c. 10 * acc + (of_char c - 48)) 0 (filter is_digit b)"

definition py_int :: "string \<Rightarrow> int option" where
  "py_int s =
     (let t = rev (dropWhile int_space (rev (dropWhile int_space s)));
          neg = (t \<noteq> [] \<and> hd t = CHR ''-'');
          b = (if t \<noteq> [] \<and> (hd t = CHR ''+'' \<or> hd t = CHR ''-'') then tl t else t)
      in if int_body_ok b \<and> length (filter is_digit b) \<le> int_max_str_digits
         then Some (if neg then - int_value b else int_value b)
         else None)"

subsection \<open>The nodes\<close>

definition show_menu :: "JokeState \<Rightarrow> world \<Rightarrow> error + (update \<times> world)" where
  "show_menu state w =
     (case py_input Menu_prompt w of
        Inl err \<Rightarrow> Inl err
      | Inr (l, w1) \<Rightarrow>
          let user_input = lower (strip l)
          in if user_input \<notin> set [''n'', ''c'', ''q'']
             then Inr (empty_update\<lparr>u_jokes_choice := Some ''n''\<rparr>,
                       print Invalid_input_defaulting w1)
             else Inr (empty_update\<lparr>u_jokes_choice := Some user_input\<rparr>, w1))"

definition writer_node :: "env \<Rightarrow> JokeState \<Rightarrow> world \<Rightarrow> error + (update \<times> world)" where
  "writer_node e state w =
     (case (if category state = ''all'' then random_choice e [''neutral'', ''chuck''] w
            else Inr (category state, w)) of
        Inl err \<Rightarrow> Inl err
      | Inr (cat, w1) \<Rightarrow>
          (case get_joke e (language state) cat w1 of
             Inl err \<Rightarrow> Inl err
           | Inr (joke_text, w2) \<Rightarrow>
               let new_joke = \<lparr>text = joke_text, Joke.category = cat, approved = False\<rparr>
               in Inr (empty_update\<lparr>u_jokes := Some [new_joke]\<rparr>, print (Writer_wrote cat) w2)))"

text \<open>
  The critic assigns to a field of the last joke object, which the list in its argument
  holds: the first component of the result is the argument after that assignment.
\<close>

definition critic_node :: "JokeState \<Rightarrow> world \<Rightarrow> JokeState \<times> update \<times> world" where
  "critic_node state w =
     (if jokes state = [] then (state, empty_update, w)
      else
        let last_joke = last (jokes state)
        in if length (text last_joke) < 40
           then
             let last_joke' = last_joke\<lparr>approved := False\<rparr>
             in (state\<lparr>jokes := butlast (jokes state) @ [last_joke']\<rparr>,
                 empty_update\<lparr>u_jokes := Some [last_joke']\<rparr>,
                 print Critic_rejected w)
           else
             let last_joke' = last_joke\<lparr>approved := True\<rparr>
             in (state\<lparr>jokes := butlast (jokes state) @ [last_joke']\<rparr>,
                 empty_update\<lparr>u_jokes := Some [last_joke']\<rparr>,
                 print (Joke_text (text last_joke')) (print Critic_approved w)))"

definition categories :: "string list" where
  "categories = [''neutral'', ''chuck'', ''all'']"

text \<open>
  The \<^verbatim>\<open>while True\<close> loop of \<^verbatim>\<open>update_category\<close>: every round reads one line, so the
  loop is a recursion over the lines that are left, and it ends with EOFError when they
  run out.
\<close>

fun read_selection :: "string list \<Rightarrow> world \<Rightarrow> error + (int \<times> world)" where
  "read_selection [] w = Inl EOFError"
| "read_selection (l # ls) w =
     (let w1 = (print Category_prompt w)\<lparr>stdin := ls\<rparr>
      in case py_int (strip l) of
           None \<Rightarrow> read_selection ls (print Please_enter_a_number w1)
         | Some selection \<Rightarrow>
             if 0 \<le> selection \<and> selection < int (length categories) then Inr (selection, w1)
             else read_selection ls (print Invalid_selection w1))"

definition update_category :: "JokeState \<Rightarrow> world \<Rightarrow> error + (update \<times> world)" where
  "update_category state w =
     (case read_selection (stdin w) w of
        Inl err \<Rightarrow> Inl err
      | Inr (selection, w1) \<Rightarrow>
          Inr (empty_update\<lparr>u_category := Some (categories ! nat selection)\<rparr>,
               print (Category_changed (categories ! nat selection)) w1))"

definition exit_bot :: "JokeState \<Rightarrow> world \<Rightarrow> update \<times> world" where
  "exit_bot state w = (empty_update\<lparr>u_quit := Some True\<rparr>, print Exiting w)"

definition route_choice :: "JokeState \<Rightarrow> string" where
  "route_choice state =
     (if jokes_choice state = ''n'' then ''writer''
      else if jokes_choice state = ''c'' then ''update_category''
      else if jokes_choice state = ''q'' then ''exit_bot''
      else ''exit_bot'')"

subsection \<open>The graph\<close>

text \<open>
  \<^verbatim>\<open>build_joke_graph\<close> registers the five nodes, the entry point, the conditional edges
  after the menu and four plain edges. The graph library runs one node at a time, merges
  its update into the state and moves along the edge. No field of \<^verbatim>\<open>JokeState\<close> is
  declared with a reducer, so a key of an update overwrites the field and an absent key
  leaves it as it is.
\<close>

datatype node = Show_menu | Writer | Critic | Update_category | Exit_bot

datatype target = Node node | END

definition last_value :: "'a \<Rightarrow> 'a option \<Rightarrow> 'a" where
  "last_value old new = (case new of None \<Rightarrow> old | Some v \<Rightarrow> v)"

definition apply_update :: "update \<Rightarrow> JokeState \<Rightarrow> JokeState" where
  "apply_update u state =
     state\<lparr>jokes := last_value (jokes state) (u_jokes u),
           jokes_choice := last_value (jokes_choice state) (u_jokes_choice u),
           category := last_value (category state) (u_category u),
           quit := last_value (quit state) (u_quit u)\<rparr>"

definition exec_node :: "env \<Rightarrow> node \<Rightarrow> JokeState \<Rightarrow> world \<Rightarrow> error + (JokeState \<times> world)" where
  "exec_node e n state w =
     (case n of
        Show_menu \<Rightarrow>
          (case show_menu state w of
             Inl err \<Rightarrow> Inl err | Inr (u, w') \<Rightarrow> Inr (apply_update u state, w'))
      | Writer \<Rightarrow>
          (case writer_node e state w of
             Inl err \<Rightarrow> Inl err | Inr (u, w') \<Rightarrow> Inr (apply_update u state, w'))
      | Critic \<Rightarrow>
          (case critic_node state w of (state', u, w') \<Rightarrow> Inr (apply_update u state', w'))
      | Update_category \<Rightarrow>
          (case update_category state w of
             Inl err \<Rightarrow> Inl err | Inr (u, w') \<Rightarrow> Inr (apply_update u state, w'))
      | Exit_bot \<Rightarrow>
          (case exit_bot state w of (u, w') \<Rightarrow> Inr (apply_update u state, w')))"

text \<open>The dict given to \<^verbatim>\<open>add_conditional_edges\<close>.\<close>

definition path_map :: "string \<Rightarrow> node option" where
  "path_map key =
     (if key = ''writer'' then Some Writer
      else if key = ''update_category'' then Some Update_category
      else if key = ''exit_bot'' then Some Exit_bot
      else None)"

definition next_node :: "node \<Rightarrow> JokeState \<Rightarrow> error + target" where
  "next_node n state =
     (case n of
        Show_menu \<Rightarrow>
          (case path_map (route_choice state) of
             None \<Rightarrow> Inl KeyError | Some n' \<Rightarrow> Inr (Node n'))
      | Writer \<Rightarrow> Inr (Node Critic)
      | Critic \<Rightarrow> Inr (Node Show_menu)
      | Update_category \<Rightarrow> Inr (Node Show_menu)
      | Exit_bot \<Rightarrow> Inr END)"

text \<open>
  The run loop, with what is left of the recursion limit. Every node execution uses one
  unit, and the library needs one more unit to see that the run is over: a run of \<open>m\<close>
  node executions returns under a limit above \<open>m\<close> and raises under a limit of \<open>m\<close> or
  less. The result carries the nodes that ran, in order.
\<close>

fun run :: "env \<Rightarrow> nat \<Rightarrow> node \<Rightarrow> JokeState \<Rightarrow> world \<Rightarrow> error + (JokeState \<times> world \<times> node list)"
  where
  "run e 0 n state w = Inl GraphRecursionError"
| "run e (Suc k) n state w =
     (case exec_node e n state w of
        Inl err \<Rightarrow> Inl err
      | Inr (state', w') \<Rightarrow>
          (case next_node n state' of
             Inl err \<Rightarrow> Inl err
           | Inr END \<Rightarrow> if k = 0 then Inl GraphRecursionError else Inr (state', w', [n])
           | Inr (Node n') \<Rightarrow>
               (case run e k n' state' w' of
                  Inl err \<Rightarrow> Inl err
                | Inr (final, w_end, ns) \<Rightarrow> Inr (final, w_end, n # ns))))"

text \<open>
  \<^verbatim>\<open>graph.invoke(JokeState(), config={"recursion_limit": 100})\<close> of \<^verbatim>\<open>main\<close>: a run of
  up to 99 node executions returns.
\<close>

definition invoke :: "env \<Rightarrow> world \<Rightarrow> error + (JokeState \<times> world \<times> node list)" where
  "invoke e w = run e 100 Show_menu JokeState0 w"

text \<open>
  The configurations a run can pass through: the node that runs next (or \<open>END\<close>), the
  state and the world. A run starts at the menu in the default state, in the world \<open>w0\<close>.
\<close>

inductive reachable :: "env \<Rightarrow> world \<Rightarrow> target \<Rightarrow> JokeState \<Rightarrow> world \<Rightarrow> bool"
  for e :: env and w0 :: world
  where
    start: "reachable e w0 (Node Show_menu) JokeState0 w0"
  | step: "reachable e w0 (Node n) state w \<Longrightarrow> exec_node e n state w = Inr (state', w') \<Longrightarrow>
           next_node n state' = Inr t \<Longrightarrow> reachable e w0 t state' w'"

code_pred reachable .

subsection \<open>A console and a joke source to run the program on\<close>

text \<open>A joke source that gives the same text of 50 characters at every call.\<close>

definition fixed_joke :: string where
  "fixed_joke = replicate 50 (CHR ''a'')"

definition stub_env :: env where
  "stub_env = \<lparr>pick = (\<lambda>k. 0), joke = (\<lambda>k lang cat. Inr fixed_joke)\<rparr>"

text \<open>A console where the user types the given lines and nothing has been written yet.\<close>

definition console :: "string list \<Rightarrow> world" where
  "console ls = \<lparr>stdin = ls, stdout = [], ticks = 0\<rparr>"

section \<open>Properties\<close>

subsection \<open>Merging an update\<close>

lemma apply_update_empty: "apply_update empty_update state = state"
  by (simp add: apply_update_def empty_update_def last_value_def)

lemma apply_update_jokes:
  "jokes (apply_update u state) = (case u_jokes u of None \<Rightarrow> jokes state | Some js \<Rightarrow> js)"
  by (simp add: apply_update_def last_value_def)

subsection \<open>Routing after the menu\<close>

text \<open>
  C5. The branch after the menu is total: the choice \<open>n\<close> leads to the writer, \<open>c\<close> to the
  category update, \<open>q\<close> to the exit, and every other value of \<open>jokes_choice\<close> leads to the
  exit as well.
\<close>

theorem route_choice_total:
  "(jokes_choice state = ''n'' \<longrightarrow>
      route_choice state = ''writer'' \<and> next_node Show_menu state = Inr (Node Writer)) \<and>
   (jokes_choice state = ''c'' \<longrightarrow>
      route_choice state = ''update_category'' \<and>
      next_node Show_menu state = Inr (Node Update_category)) \<and>
   (jokes_choice state = ''q'' \<longrightarrow>
      route_choice state = ''exit_bot'' \<and> next_node Show_menu state = Inr (Node Exit_bot)) \<and>
   (jokes_choice state \<notin> {''n'', ''c'', ''q''} \<longrightarrow>
      route_choice state = ''exit_bot'' \<and> next_node Show_menu state = Inr (Node Exit_bot))"
  by (simp add: route_choice_def next_node_def path_map_def)

theorem route_choice_total_witness:
  "jokes_choice (JokeState0\<lparr>jokes_choice := ''n''\<rparr>) = ''n'' \<and>
   next_node Show_menu (JokeState0\<lparr>jokes_choice := ''n''\<rparr>) = Inr (Node Writer) \<and>
   jokes_choice (JokeState0\<lparr>jokes_choice := ''c''\<rparr>) = ''c'' \<and>
   next_node Show_menu (JokeState0\<lparr>jokes_choice := ''c''\<rparr>) = Inr (Node Update_category) \<and>
   jokes_choice (JokeState0\<lparr>jokes_choice := ''q''\<rparr>) = ''q'' \<and>
   next_node Show_menu (JokeState0\<lparr>jokes_choice := ''q''\<rparr>) = Inr (Node Exit_bot) \<and>
   jokes_choice (JokeState0\<lparr>jokes_choice := ''x''\<rparr>) \<notin> {''n'', ''c'', ''q''} \<and>
   next_node Show_menu (JokeState0\<lparr>jokes_choice := ''x''\<rparr>) = Inr (Node Exit_bot)"
  using route_choice_total [of "JokeState0\<lparr>jokes_choice := ''n''\<rparr>"]
    route_choice_total [of "JokeState0\<lparr>jokes_choice := ''c''\<rparr>"]
    route_choice_total [of "JokeState0\<lparr>jokes_choice := ''q''\<rparr>"]
    route_choice_total [of "JokeState0\<lparr>jokes_choice := ''x''\<rparr>"]
  by simp

subsection \<open>The critic\<close>

text \<open>
  C9. On a state with no joke the critic does nothing: it returns the empty update, raises
  no error, writes nothing, and the state after the step is the state before it.
\<close>

theorem critic_empty_history_noop:
  assumes "jokes state = []"
  shows "critic_node state w = (state, empty_update, w) \<and>
         exec_node e Critic state w = Inr (state, w)"
  using assms by (simp add: critic_node_def exec_node_def apply_update_empty)

theorem critic_empty_history_noop_witness:
  "jokes JokeState0 = [] \<and>
   critic_node JokeState0 (console []) = (JokeState0, empty_update, console []) \<and>
   exec_node stub_env Critic JokeState0 (console []) = Inr (JokeState0, console [])"
proof -
  have h: "jokes JokeState0 = []" by (simp add: JokeState0_def)
  show ?thesis using h critic_empty_history_noop [OF h] by simp
qed

text \<open>
  C3. The critic sets the flag \<open>approved\<close> of the last joke to true exactly when its text
  has at least 40 characters: the joke it returns, and the last joke of the state after the
  step, is the last joke with \<open>approved\<close> set to \<open>40 \<le> length text\<close>.
\<close>

theorem critic_approval_threshold:
  assumes "jokes state = js @ [j]"
  shows "critic_node state w =
           (state\<lparr>jokes := js @ [j\<lparr>approved := (40 \<le> length (text j))\<rparr>]\<rparr>,
            empty_update\<lparr>u_jokes := Some [j\<lparr>approved := (40 \<le> length (text j))\<rparr>]\<rparr>,
            if 40 \<le> length (text j)
            then w\<lparr>stdout := stdout w @ [Critic_approved, Joke_text (text j)]\<rparr>
            else w\<lparr>stdout := stdout w @ [Critic_rejected]\<rparr>) \<and>
         exec_node e Critic state w =
           Inr (state\<lparr>jokes := [j\<lparr>approved := (40 \<le> length (text j))\<rparr>]\<rparr>,
                if 40 \<le> length (text j)
                then w\<lparr>stdout := stdout w @ [Critic_approved, Joke_text (text j)]\<rparr>
                else w\<lparr>stdout := stdout w @ [Critic_rejected]\<rparr>) \<and>
         (approved (j\<lparr>approved := (40 \<le> length (text j))\<rparr>) \<longleftrightarrow> length (text j) \<ge> 40)"
  using assms
  by (simp add: critic_node_def exec_node_def apply_update_def last_value_def
      empty_update_def print_def Let_def)

theorem critic_approval_threshold_witness:
  "jokes (JokeState0\<lparr>jokes := [\<lparr>text = replicate 39 (CHR ''a''), Joke.category = ''neutral'',
                                   approved = True\<rparr>]\<rparr>) =
     [] @ [\<lparr>text = replicate 39 (CHR ''a''), Joke.category = ''neutral'', approved = True\<rparr>] \<and>
   exec_node stub_env Critic
       (JokeState0\<lparr>jokes := [\<lparr>text = replicate 39 (CHR ''a''), Joke.category = ''neutral'',
                                approved = True\<rparr>]\<rparr>) (console []) =
     Inr (JokeState0\<lparr>jokes := [\<lparr>text = replicate 39 (CHR ''a''), Joke.category = ''neutral'',
                                    approved = False\<rparr>]\<rparr>,
          \<lparr>stdin = [], stdout = [Critic_rejected], ticks = 0\<rparr>) \<and>
   jokes (JokeState0\<lparr>jokes := [\<lparr>text = replicate 40 (CHR ''a''), Joke.category = ''neutral'',
                                   approved = False\<rparr>]\<rparr>) =
     [] @ [\<lparr>text = replicate 40 (CHR ''a''), Joke.category = ''neutral'', approved = False\<rparr>] \<and>
   exec_node stub_env Critic
       (JokeState0\<lparr>jokes := [\<lparr>text = replicate 40 (CHR ''a''), Joke.category = ''neutral'',
                                approved = False\<rparr>]\<rparr>) (console []) =
     Inr (JokeState0\<lparr>jokes := [\<lparr>text = replicate 40 (CHR ''a''), Joke.category = ''neutral'',
                                    approved = True\<rparr>]\<rparr>,
          \<lparr>stdin = [], stdout = [Critic_approved, Joke_text (replicate 40 (CHR ''a''))],
           ticks = 0\<rparr>)"
proof -
  let ?j39 = "\<lparr>text = replicate 39 (CHR ''a''), Joke.category = ''neutral'', approved = True\<rparr>"
  let ?j40 = "\<lparr>text = replicate 40 (CHR ''a''), Joke.category = ''neutral'', approved = False\<rparr>"
  have h39: "jokes (JokeState0\<lparr>jokes := [?j39]\<rparr>) = [] @ [?j39]" by simp
  have h40: "jokes (JokeState0\<lparr>jokes := [?j40]\<rparr>) = [] @ [?j40]" by simp
  show ?thesis
    using h39 h40 critic_approval_threshold [OF h39, of "console []" stub_env]
      critic_approval_threshold [OF h40, of "console []" stub_env]
    by (simp add: console_def)
qed

subsection \<open>The menu\<close>

lemma strip_lower_examples:
  "lower (strip ''  Q '') = ''q''" "lower (strip ''joke please'') = ''joke please''"
  "lower (strip ''q'') = ''q''"
  by code_simp+

text \<open>
  C6. The menu step reads one line. When the line, stripped and in lower case, is one of
  \<open>n\<close>, \<open>c\<close>, \<open>q\<close>, \<open>jokes_choice\<close> becomes that text; for every other line it becomes \<open>n\<close>
  and a warning is written.
\<close>

theorem menu_coercion:
  assumes "stdin w = l # ls"
  shows "exec_node e Show_menu state w =
           Inr (state\<lparr>jokes_choice :=
                        (if lower (strip l) \<in> {''n'', ''c'', ''q''} then lower (strip l)
                         else ''n'')\<rparr>,
                if lower (strip l) \<in> {''n'', ''c'', ''q''}
                then w\<lparr>stdin := ls, stdout := stdout w @ [Menu_prompt]\<rparr>
                else w\<lparr>stdin := ls,
                       stdout := stdout w @ [Menu_prompt, Invalid_input_defaulting]\<rparr>)"
  using assms
  by (simp add: exec_node_def show_menu_def py_input_def print_def apply_update_def
      last_value_def empty_update_def Let_def)

theorem menu_coercion_witness:
  "stdin (console [''joke please'', ''  Q '']) = ''joke please'' # [''  Q ''] \<and>
   exec_node stub_env Show_menu (JokeState0\<lparr>jokes_choice := ''c''\<rparr>)
       (console [''joke please'', ''  Q '']) =
     Inr (JokeState0\<lparr>jokes_choice := ''n''\<rparr>,
          \<lparr>stdin = [''  Q ''], stdout = [Menu_prompt, Invalid_input_defaulting], ticks = 0\<rparr>) \<and>
   stdin (console [''  Q '']) = ''  Q '' # [] \<and>
   exec_node stub_env Show_menu JokeState0 (console [''  Q '']) =
     Inr (JokeState0\<lparr>jokes_choice := ''q''\<rparr>,
          \<lparr>stdin = [], stdout = [Menu_prompt], ticks = 0\<rparr>)"
proof -
  have h1: "stdin (console [''joke please'', ''  Q '']) = ''joke please'' # [''  Q '']"
    by (simp add: console_def)
  have h2: "stdin (console [''  Q '']) = ''  Q '' # []"
    by (simp add: console_def)
  show ?thesis
    using h1 h2 menu_coercion [OF h1, of stub_env "JokeState0\<lparr>jokes_choice := ''c''\<rparr>"]
      menu_coercion [OF h2, of stub_env JokeState0]
    by (simp add: strip_lower_examples console_def)
qed

subsection \<open>The writer\<close>

lemma random_choice_two:
  "random_choice e [a, b] w =
     Inr (if even (pick e (ticks w)) then a else b, w\<lparr>ticks := ticks w + 1\<rparr>)"
proof (cases "even (pick e (ticks w))")
  case True
  then have "pick e (ticks w) mod Suc (Suc 0) = 0" by presburger
  with True show ?thesis by (simp add: random_choice_def)
next
  case False
  then have "pick e (ticks w) mod Suc (Suc 0) = Suc 0" by presburger
  with False show ?thesis by (simp add: random_choice_def)
qed

text \<open>
  C4. When the category of the session is \<open>all\<close>, the writer draws a category \<open>c\<close> that is
  \<open>neutral\<close> or \<open>chuck\<close>, never \<open>all\<close>, asks the joke source for a joke of category \<open>c\<close>,
  and the joke it returns carries \<open>c\<close>. When the joke source fails, so does the writer,
  and no joke is created.
\<close>

theorem writer_resolves_all:
  assumes "category state = ''all''"
  shows "\<exists>c. c \<in> {''neutral'', ''chuck''} \<and> c \<noteq> ''all'' \<and>
           writer_node e state w =
             (case joke e (ticks w + 1) (language state) c of
                Inl err \<Rightarrow> Inl err
              | Inr txt \<Rightarrow>
                  Inr (empty_update\<lparr>u_jokes :=
                         Some [\<lparr>text = txt, Joke.category = c, approved = False\<rparr>]\<rparr>,
                       w\<lparr>stdout := stdout w @ [Writer_wrote c], ticks := ticks w + 2\<rparr>))"
proof -
  define c where "c = (if even (pick e (ticks w)) then ''neutral'' else ''chuck'')"
  have rc: "random_choice e [''neutral'', ''chuck''] w = Inr (c, w\<lparr>ticks := ticks w + 1\<rparr>)"
    unfolding c_def by (rule random_choice_two)
  have c: "c = ''neutral'' \<or> c = ''chuck''"
    by (simp add: c_def)
  have "writer_node e state w =
             (case joke e (ticks w + 1) (language state) c of
                Inl err \<Rightarrow> Inl err
              | Inr txt \<Rightarrow>
                  Inr (empty_update\<lparr>u_jokes :=
                         Some [\<lparr>text = txt, Joke.category = c, approved = False\<rparr>]\<rparr>,
                       w\<lparr>stdout := stdout w @ [Writer_wrote c], ticks := ticks w + 2\<rparr>))"
    using assms rc
    by (simp add: writer_node_def get_joke_def print_def Let_def split: sum.splits)
  with c show ?thesis by auto
qed

theorem writer_resolves_all_witness:
  "category (JokeState0\<lparr>category := ''all''\<rparr>) = ''all'' \<and>
   (\<exists>c. c \<in> {''neutral'', ''chuck''} \<and> c \<noteq> ''all'' \<and>
      writer_node stub_env (JokeState0\<lparr>category := ''all''\<rparr>) (console []) =
        Inr (empty_update\<lparr>u_jokes :=
               Some [\<lparr>text = fixed_joke, Joke.category = c, approved = False\<rparr>]\<rparr>,
             \<lparr>stdin = [], stdout = [Writer_wrote c], ticks = 2\<rparr>))"
proof -
  have h: "category (JokeState0\<lparr>category := ''all''\<rparr>) = ''all''" by simp
  show ?thesis
    using h writer_resolves_all [OF h, of stub_env "console []"]
    by (simp add: stub_env_def console_def numeral_2_eq_2)
qed

subsection \<open>The category update\<close>

lemma read_selection_retry:
  assumes "\<forall>l \<in> set bad. \<forall>k. py_int (strip l) = Some k \<longrightarrow> k < 0 \<or> 2 < k"
    and "py_int (strip good) = Some k" and "0 \<le> k" and "k \<le> 2"
  shows "read_selection (bad @ good # rest) w =
           Inr (k, w\<lparr>stdin := rest,
                     stdout := stdout w @
                       concat (map (\<lambda>l. [Category_prompt,
                                          if py_int (strip l) = None then Please_enter_a_number
                                          else Invalid_selection]) bad) @
                       [Category_prompt]\<rparr>)"
  using assms
proof (induction bad arbitrary: w)
  case Nil
  then show ?case by (simp add: categories_def print_def)
next
  case (Cons l bad)
  show ?case
  proof (cases "py_int (strip l)")
    case None
    with Cons show ?thesis by (simp add: print_def)
  next
    case (Some j)
    with Cons.prems have "j < 0 \<or> 2 < j" by simp
    with Some Cons show ?thesis by (auto simp add: print_def categories_def)
  qed
qed

lemma py_int_examples:
  "py_int (strip ''x'') = None" "py_int (strip ''5'') = Some 5" "py_int (strip ''1'') = Some 1"
  by code_simp+

text \<open>
  C7. The category update reads lines until one parses as an integer \<open>k\<close> with
  \<open>0 \<le> k \<le> 2\<close>. Every line before it (one that does not parse, or parses to a number out
  of range) is answered with an error message after the prompt, and the state is not
  touched; the accepted \<open>k\<close> sets \<open>category\<close> to the \<open>k\<close>-th of \<open>neutral\<close>, \<open>chuck\<close>, \<open>all\<close>
  and nothing else. The witness is the run on the lines \<open>x\<close>, \<open>5\<close>, \<open>1\<close>, which ends with
  the category \<open>chuck\<close>.
\<close>

theorem category_update_retry:
  assumes "stdin w = bad @ good # rest"
    and "\<forall>l \<in> set bad. \<forall>k. py_int (strip l) = Some k \<longrightarrow> k < 0 \<or> 2 < k"
    and "py_int (strip good) = Some k" and "0 \<le> k" and "k \<le> 2"
  shows "exec_node e Update_category state w =
           Inr (state\<lparr>category := [''neutral'', ''chuck'', ''all''] ! nat k\<rparr>,
                w\<lparr>stdin := rest,
                  stdout := stdout w @
                    concat (map (\<lambda>l. [Category_prompt,
                                       if py_int (strip l) = None then Please_enter_a_number
                                       else Invalid_selection]) bad) @
                    [Category_prompt,
                     Category_changed ([''neutral'', ''chuck'', ''all''] ! nat k)]\<rparr>)"
  using read_selection_retry [OF assms(2-5), of rest w] assms(1)
  by (simp add: exec_node_def update_category_def apply_update_def last_value_def
      empty_update_def print_def categories_def)

theorem category_update_retry_witness:
  "stdin (console [''x'', ''5'', ''1'']) = [''x'', ''5''] @ ''1'' # [] \<and>
   py_int (strip ''x'') = None \<and> py_int (strip ''5'') = Some 5 \<and> (2::int) < 5 \<and>
   py_int (strip ''1'') = Some 1 \<and> (0::int) \<le> 1 \<and> (1::int) \<le> 2 \<and>
   exec_node stub_env Update_category JokeState0 (console [''x'', ''5'', ''1'']) =
     Inr (JokeState0\<lparr>category := ''chuck''\<rparr>,
          \<lparr>stdin = [],
           stdout = [Category_prompt, Please_enter_a_number, Category_prompt, Invalid_selection,
                     Category_prompt, Category_changed ''chuck''],
           ticks = 0\<rparr>)"
proof -
  have h1: "stdin (console [''x'', ''5'', ''1'']) = [''x'', ''5''] @ ''1'' # []"
    by (simp add: console_def)
  have h2: "\<forall>l \<in> set [''x'', ''5'']. \<forall>k. py_int (strip l) = Some k \<longrightarrow> k < 0 \<or> 2 < k"
    by (simp add: py_int_examples)
  have h3: "py_int (strip ''1'') = Some 1" by (rule py_int_examples)
  show ?thesis
    using h1 h2 h3 category_update_retry [OF h1 h2 h3, of stub_env JokeState0]
    by (simp add: py_int_examples console_def)
qed

subsection \<open>Quitting at the first menu\<close>

lemma menu_step_quit:
  assumes "stdin w = l # ls" and "lower (strip l) = ''q''"
  shows "exec_node e Show_menu state w =
           Inr (state\<lparr>jokes_choice := ''q''\<rparr>, w\<lparr>stdin := ls, stdout := stdout w @ [Menu_prompt]\<rparr>)"
  using assms
  by (simp add: exec_node_def show_menu_def py_input_def print_def apply_update_def
      last_value_def empty_update_def Let_def)

lemma exit_step:
  "exec_node e Exit_bot state w = Inr (state\<lparr>quit := True\<rparr>, w\<lparr>stdout := stdout w @ [Exiting]\<rparr>)"
  by (simp add: exec_node_def exit_bot_def print_def apply_update_def
      last_value_def empty_update_def)

text \<open>
  Under a recursion limit of 2 the same two node executions end in the library's error:
  3 is the least limit under which this run returns.
\<close>

lemma run_limit_boundary:
  "run stub_env 2 Show_menu JokeState0 (console [''q'']) = Inl GraphRecursionError"
  by code_simp

text \<open>
  C8. When the first line typed at the menu is the choice \<open>q\<close>, a run under a recursion
  limit of at least 3 (the limit of \<open>main\<close> is 100) executes the menu once and the exit
  once and halts; the final state has \<open>quit\<close> set and no joke.
\<close>

theorem quit_at_first_menu:
  assumes "stdin w = l # ls" and "lower (strip l) = ''q''" and "3 \<le> k"
  shows "run e k Show_menu JokeState0 w =
           Inr (JokeState0\<lparr>jokes_choice := ''q'', quit := True\<rparr>,
                w\<lparr>stdin := ls, stdout := stdout w @ [Menu_prompt, Exiting]\<rparr>,
                [Show_menu, Exit_bot]) \<and>
         invoke e w = run e k Show_menu JokeState0 w \<and>
         jokes (JokeState0\<lparr>jokes_choice := ''q'', quit := True\<rparr>) = [] \<and>
         quit (JokeState0\<lparr>jokes_choice := ''q'', quit := True\<rparr>)"
proof -
  have three: "run e (Suc (Suc (Suc m))) Show_menu JokeState0 w =
           Inr (JokeState0\<lparr>jokes_choice := ''q'', quit := True\<rparr>,
                w\<lparr>stdin := ls, stdout := stdout w @ [Menu_prompt, Exiting]\<rparr>,
                [Show_menu, Exit_bot])" for m
    by (simp add: menu_step_quit [OF assms(1,2)] exit_step next_node_def route_choice_def
        path_map_def)
  from assms(3) obtain m where k: "k = Suc (Suc (Suc m))"
    by (metis Suc_le_D numeral_3_eq_3 Suc_le_mono)
  have a: "run e k Show_menu JokeState0 w =
           Inr (JokeState0\<lparr>jokes_choice := ''q'', quit := True\<rparr>,
                w\<lparr>stdin := ls, stdout := stdout w @ [Menu_prompt, Exiting]\<rparr>,
                [Show_menu, Exit_bot])"
    unfolding k by (rule three)
  have hundred: "(100::nat) = Suc (Suc (Suc 97))" by simp
  have b: "invoke e w = run e k Show_menu JokeState0 w"
    unfolding invoke_def a by (simp only: hundred three)
  have c: "jokes (JokeState0\<lparr>jokes_choice := ''q'', quit := True\<rparr>) = []"
    by (simp add: JokeState0_def)
  have d: "quit (JokeState0\<lparr>jokes_choice := ''q'', quit := True\<rparr>)"
    by simp
  from a b c d show ?thesis by (intro conjI)
qed

theorem quit_at_first_menu_witness:
  "stdin (console [''  Q '', ''n'']) = ''  Q '' # [''n''] \<and> lower (strip ''  Q '') = ''q'' \<and>
   (3::nat) \<le> 3 \<and>
   run stub_env 3 Show_menu JokeState0 (console [''  Q '', ''n'']) =
     Inr (\<lparr>jokes = [], jokes_choice = ''q'', category = ''neutral'', language = ''en'',
           quit = True\<rparr>,
          \<lparr>stdin = [''n''], stdout = [Menu_prompt, Exiting], ticks = 0\<rparr>,
          [Show_menu, Exit_bot]) \<and>
   invoke stub_env (console [''  Q '', ''n'']) =
     Inr (\<lparr>jokes = [], jokes_choice = ''q'', category = ''neutral'', language = ''en'',
           quit = True\<rparr>,
          \<lparr>stdin = [''n''], stdout = [Menu_prompt, Exiting], ticks = 0\<rparr>,
          [Show_menu, Exit_bot])"
proof -
  have h1: "stdin (console [''  Q '', ''n'']) = ''  Q '' # [''n'']"
    by (simp add: console_def)
  have h2: "lower (strip ''  Q '') = ''q''" by (rule strip_lower_examples)
  have h3: "(3::nat) \<le> 3" by simp
  show ?thesis
    using h1 h2 quit_at_first_menu [OF h1 h2 h3, of stub_env]
    by (simp add: console_def JokeState0_def)
qed

subsection \<open>The history of jokes\<close>

lemma exec_node_jokes:
  assumes "exec_node e n state w = Inr (state', w')"
  shows "case n of
           Writer \<Rightarrow> \<exists>txt c. jokes state' = [\<lparr>text = txt, Joke.category = c, approved = False\<rparr>]
         | Critic \<Rightarrow>
             jokes state' =
               (if jokes state = [] then []
                else [(last (jokes state))\<lparr>approved := (40 \<le> length (text (last (jokes state))))\<rparr>])
         | _ \<Rightarrow> jokes state' = jokes state"
proof (cases n)
  case Show_menu
  with assms show ?thesis
    by (auto simp add: exec_node_def show_menu_def apply_update_jokes empty_update_def Let_def
        split: sum.splits if_splits)
next
  case Writer
  with assms show ?thesis
    by (auto simp add: exec_node_def writer_node_def apply_update_jokes empty_update_def Let_def
        split: sum.splits if_splits)
next
  case Critic
  with assms show ?thesis
    by (auto simp add: exec_node_def critic_node_def apply_update_jokes empty_update_def Let_def
        split: if_splits)
next
  case Update_category
  with assms show ?thesis
    by (auto simp add: exec_node_def update_category_def apply_update_jokes empty_update_def
        split: sum.splits)
next
  case Exit_bot
  with assms show ?thesis
    by (auto simp add: exec_node_def exit_bot_def apply_update_jokes empty_update_def)
qed

lemma exec_node_keeps_short:
  assumes "exec_node e n state w = Inr (state', w')" and "length (jokes state) \<le> 1"
  shows "length (jokes state') \<le> 1"
  using exec_node_jokes [OF assms(1)] assms(2) by (cases n) (auto split: if_splits)

lemma reachable_short: "reachable e w0 t state w \<Longrightarrow> length (jokes state) \<le> 1"
proof (induction rule: reachable.induct)
  case start
  show ?case by (simp add: JokeState0_def)
next
  case (step n state w state' w' t)
  then show ?case by (blast intro: exec_node_keeps_short)
qed

text \<open>The final state of a run that starts in a reachable configuration is reachable.\<close>

lemma run_reachable:
  assumes "run e k n state w = Inr (final, w_end, ns)" and "reachable e w0 (Node n) state w"
  shows "reachable e w0 END final w_end"
  using assms
proof (induction k arbitrary: n state w ns)
  case 0
  then show ?case by simp
next
  case (Suc k)
  from Suc.prems(1) obtain state' w' where ex: "exec_node e n state w = Inr (state', w')"
    by (auto split: sum.splits)
  from Suc.prems(1) ex obtain t where nx: "next_node n state' = Inr t"
    by (auto split: sum.splits)
  have r: "reachable e w0 t state' w'"
    by (rule reachable.step [OF Suc.prems(2) ex nx])
  show ?case
  proof (cases t)
    case END
    with Suc.prems(1) ex nx r show ?thesis by (simp split: if_splits)
  next
    case (Node n')
    with Suc.prems(1) ex nx obtain ns' where "run e k n' state' w' = Inr (final, w_end, ns')"
      by (auto split: sum.splits)
    with Suc.IH r Node show ?thesis by blast
  qed
qed

text \<open>The first steps of the run on the lines \<open>n\<close>, \<open>n\<close>, \<open>q\<close> with the fixed joke.\<close>

lemma first_cycle:
  "exec_node stub_env Show_menu JokeState0 (console [''n'', ''n'', ''q'']) =
     Inr (JokeState0, \<lparr>stdin = [''n'', ''q''], stdout = [Menu_prompt], ticks = 0\<rparr>)"
  "next_node Show_menu JokeState0 = Inr (Node Writer)"
  "exec_node stub_env Writer JokeState0
       \<lparr>stdin = [''n'', ''q''], stdout = [Menu_prompt], ticks = 0\<rparr> =
     Inr (JokeState0\<lparr>jokes := [\<lparr>text = fixed_joke, Joke.category = ''neutral'',
                                    approved = False\<rparr>]\<rparr>,
          \<lparr>stdin = [''n'', ''q''], stdout = [Menu_prompt, Writer_wrote ''neutral''],
           ticks = 1\<rparr>)"
  "next_node Writer
       (JokeState0\<lparr>jokes := [\<lparr>text = fixed_joke, Joke.category = ''neutral'',
                                approved = False\<rparr>]\<rparr>) = Inr (Node Critic)"
  "exec_node stub_env Critic
       (JokeState0\<lparr>jokes := [\<lparr>text = fixed_joke, Joke.category = ''neutral'',
                                approved = False\<rparr>]\<rparr>)
       \<lparr>stdin = [''n'', ''q''], stdout = [Menu_prompt, Writer_wrote ''neutral''], ticks = 1\<rparr> =
     Inr (JokeState0\<lparr>jokes := [\<lparr>text = fixed_joke, Joke.category = ''neutral'',
                                    approved = True\<rparr>]\<rparr>,
          \<lparr>stdin = [''n'', ''q''],
           stdout = [Menu_prompt, Writer_wrote ''neutral'', Critic_approved,
                     Joke_text fixed_joke],
           ticks = 1\<rparr>)"
  "next_node Critic
       (JokeState0\<lparr>jokes := [\<lparr>text = fixed_joke, Joke.category = ''neutral'',
                                approved = True\<rparr>]\<rparr>) = Inr (Node Show_menu)"
  "exec_node stub_env Show_menu
       (JokeState0\<lparr>jokes := [\<lparr>text = fixed_joke, Joke.category = ''neutral'',
                                approved = True\<rparr>]\<rparr>)
       \<lparr>stdin = [''n'', ''q''],
        stdout = [Menu_prompt, Writer_wrote ''neutral'', Critic_approved, Joke_text fixed_joke],
        ticks = 1\<rparr> =
     Inr (JokeState0\<lparr>jokes := [\<lparr>text = fixed_joke, Joke.category = ''neutral'',
                                    approved = True\<rparr>]\<rparr>,
          \<lparr>stdin = [''q''],
           stdout = [Menu_prompt, Writer_wrote ''neutral'', Critic_approved,
                     Joke_text fixed_joke, Menu_prompt],
           ticks = 1\<rparr>)"
  "next_node Show_menu
       (JokeState0\<lparr>jokes := [\<lparr>text = fixed_joke, Joke.category = ''neutral'',
                                approved = True\<rparr>]\<rparr>) = Inr (Node Writer)"
  by code_simp+

lemma reachable_second_writer:
  "reachable stub_env (console [''n'', ''n'', ''q'']) (Node Writer)
     (JokeState0\<lparr>jokes := [\<lparr>text = fixed_joke, Joke.category = ''neutral'',
                              approved = True\<rparr>]\<rparr>)
     \<lparr>stdin = [''q''],
      stdout = [Menu_prompt, Writer_wrote ''neutral'', Critic_approved, Joke_text fixed_joke,
                Menu_prompt],
      ticks = 1\<rparr>"
  by (rule reachable.step [OF reachable.step [OF reachable.step [OF reachable.step
        [OF reachable.start first_cycle(1) first_cycle(2)]
        first_cycle(3) first_cycle(4)] first_cycle(5) first_cycle(6)]
        first_cycle(7) first_cycle(8)])

text \<open>
  C10. In every configuration a run can reach, and so in the final state of every run of
  \<open>main\<close>, the list of jokes has at most one element. The reason is in the other three
  parts: the merge overwrites \<open>jokes\<close> with the list of the update when the update has
  one; after a writer step the list is the one new joke; after a critic step it is empty
  when it was empty and otherwise the last joke alone with its verdict; the other steps
  leave the list as it is.
\<close>

theorem jokes_length_at_most_one:
  "(reachable e w0 t state w \<longrightarrow> length (jokes state) \<le> 1) \<and>
   (invoke e w0 = Inr (final, w_end, ns) \<longrightarrow> length (jokes final) \<le> 1) \<and>
   jokes (apply_update u s) = (case u_jokes u of None \<Rightarrow> jokes s | Some js \<Rightarrow> js) \<and>
   (exec_node e n s wa = Inr (s', wb) \<longrightarrow>
      (case n of
         Writer \<Rightarrow> \<exists>txt c. jokes s' = [\<lparr>text = txt, Joke.category = c, approved = False\<rparr>]
       | Critic \<Rightarrow>
           jokes s' =
             (if jokes s = [] then []
              else [(last (jokes s))\<lparr>approved := (40 \<le> length (text (last (jokes s))))\<rparr>])
       | _ \<Rightarrow> jokes s' = jokes s))"
proof (intro conjI impI)
  assume "reachable e w0 t state w"
  then show "length (jokes state) \<le> 1" by (rule reachable_short)
next
  assume "invoke e w0 = Inr (final, w_end, ns)"
  then have "reachable e w0 END final w_end"
    unfolding invoke_def by (rule run_reachable) (rule reachable.start)
  then show "length (jokes final) \<le> 1" by (rule reachable_short)
next
  show "jokes (apply_update u s) = (case u_jokes u of None \<Rightarrow> jokes s | Some js \<Rightarrow> js)"
    by (rule apply_update_jokes)
next
  assume "exec_node e n s wa = Inr (s', wb)"
  then show "case n of
         Writer \<Rightarrow> \<exists>txt c. jokes s' = [\<lparr>text = txt, Joke.category = c, approved = False\<rparr>]
       | Critic \<Rightarrow>
           jokes s' =
             (if jokes s = [] then []
              else [(last (jokes s))\<lparr>approved := (40 \<le> length (text (last (jokes s))))\<rparr>])
       | _ \<Rightarrow> jokes s' = jokes s"
    by (rule exec_node_jokes)
qed

theorem jokes_length_at_most_one_witness:
  "reachable stub_env (console [''n'', ''n'', ''q'']) (Node Writer)
     (JokeState0\<lparr>jokes := [\<lparr>text = fixed_joke, Joke.category = ''neutral'',
                              approved = True\<rparr>]\<rparr>)
     \<lparr>stdin = [''q''],
      stdout = [Menu_prompt, Writer_wrote ''neutral'', Critic_approved, Joke_text fixed_joke,
                Menu_prompt],
      ticks = 1\<rparr> \<and>
   length (jokes (JokeState0\<lparr>jokes := [\<lparr>text = fixed_joke, Joke.category = ''neutral'',
                                           approved = True\<rparr>]\<rparr>)) \<le> 1 \<and>
   invoke stub_env (console [''n'', ''q'']) =
     Inr (\<lparr>jokes = [\<lparr>text = fixed_joke, Joke.category = ''neutral'', approved = True\<rparr>],
           jokes_choice = ''q'', category = ''neutral'', language = ''en'', quit = True\<rparr>,
          \<lparr>stdin = [],
           stdout = [Menu_prompt, Writer_wrote ''neutral'', Critic_approved,
                     Joke_text fixed_joke, Menu_prompt, Exiting],
           ticks = 1\<rparr>,
          [Show_menu, Writer, Critic, Show_menu, Exit_bot]) \<and>
   length (jokes \<lparr>jokes = [\<lparr>text = fixed_joke, Joke.category = ''neutral'', approved = True\<rparr>],
                  jokes_choice = ''q'', category = ''neutral'', language = ''en'',
                  quit = True\<rparr>) \<le> 1 \<and>
   exec_node stub_env Exit_bot
       (JokeState0\<lparr>jokes := [\<lparr>text = fixed_joke, Joke.category = ''neutral'',
                                approved = True\<rparr>]\<rparr>) (console []) =
     Inr (JokeState0\<lparr>jokes := [\<lparr>text = fixed_joke, Joke.category = ''neutral'',
                                    approved = True\<rparr>], quit := True\<rparr>,
          \<lparr>stdin = [], stdout = [Exiting], ticks = 0\<rparr>) \<and>
   jokes (JokeState0\<lparr>jokes := [\<lparr>text = fixed_joke, Joke.category = ''neutral'',
                                   approved = True\<rparr>], quit := True\<rparr>) =
     jokes (JokeState0\<lparr>jokes := [\<lparr>text = fixed_joke, Joke.category = ''neutral'',
                                     approved = True\<rparr>]\<rparr>)"
proof -
  let ?j = "\<lparr>text = fixed_joke, Joke.category = ''neutral'', approved = True\<rparr>"
  let ?w = "\<lparr>stdin = [''q''],
             stdout = [Menu_prompt, Writer_wrote ''neutral'', Critic_approved,
                       Joke_text fixed_joke, Menu_prompt],
             ticks = 1\<rparr>"
  let ?final = "\<lparr>jokes = [?j], jokes_choice = ''q'', category = ''neutral'',
                  language = ''en'', quit = True\<rparr>"
  let ?w_end = "\<lparr>stdin = [],
                 stdout = [Menu_prompt, Writer_wrote ''neutral'', Critic_approved,
                           Joke_text fixed_joke, Menu_prompt, Exiting],
                 ticks = 1\<rparr>"
  let ?ns = "[Show_menu, Writer, Critic, Show_menu, Exit_bot]"
  let ?s = "JokeState0\<lparr>jokes := [?j]\<rparr>"
  let ?s' = "JokeState0\<lparr>jokes := [?j], quit := True\<rparr>"
  let ?wb = "\<lparr>stdin = [], stdout = [Exiting], ticks = 0\<rparr>"
  have r: "reachable stub_env (console [''n'', ''n'', ''q'']) (Node Writer) ?s ?w"
    by (rule reachable_second_writer)
  have i: "invoke stub_env (console [''n'', ''q'']) = Inr (?final, ?w_end, ?ns)"
    by code_simp
  have x: "exec_node stub_env Exit_bot ?s (console []) = Inr (?s', ?wb)"
    by code_simp
  note T1 = jokes_length_at_most_one
    [where e = stub_env and ?w0.0 = "console [''n'', ''n'', ''q'']" and t = "Node Writer"
      and state = ?s and w = ?w]
  note T2 = jokes_length_at_most_one
    [where e = stub_env and ?w0.0 = "console [''n'', ''q'']" and final = ?final
      and w_end = ?w_end and ns = ?ns and n = Exit_bot and s = ?s and wa = "console []"
      and s' = ?s' and wb = ?wb]
  from T1 r have c1: "length (jokes ?s) \<le> 1" by blast
  from T2 i have c2: "length (jokes ?final) \<le> 1" by blast
  from T2 x have c3: "jokes ?s' = jokes ?s" by simp
  from r c1 i c2 x c3 show ?thesis by (intro conjI)
qed

text \<open>
  C1, on the code. The configuration below is reached on the lines \<open>n\<close>, \<open>n\<close>, \<open>q\<close>: the menu
  has been answered for the second time and the writer runs next, with one joke in the
  history. The writer step leaves one joke in the history, the new one: the history has
  not grown, and the first joke is gone.
\<close>

theorem writer_step_replaces_history:
  "reachable stub_env (console [''n'', ''n'', ''q'']) (Node Writer)
     (JokeState0\<lparr>jokes := [\<lparr>text = fixed_joke, Joke.category = ''neutral'',
                              approved = True\<rparr>]\<rparr>)
     \<lparr>stdin = [''q''],
      stdout = [Menu_prompt, Writer_wrote ''neutral'', Critic_approved, Joke_text fixed_joke,
                Menu_prompt],
      ticks = 1\<rparr> \<and>
   exec_node stub_env Writer
     (JokeState0\<lparr>jokes := [\<lparr>text = fixed_joke, Joke.category = ''neutral'',
                              approved = True\<rparr>]\<rparr>)
     \<lparr>stdin = [''q''],
      stdout = [Menu_prompt, Writer_wrote ''neutral'', Critic_approved, Joke_text fixed_joke,
                Menu_prompt],
      ticks = 1\<rparr> =
     Inr (JokeState0\<lparr>jokes := [\<lparr>text = fixed_joke, Joke.category = ''neutral'',
                                    approved = False\<rparr>]\<rparr>,
          \<lparr>stdin = [''q''],
           stdout = [Menu_prompt, Writer_wrote ''neutral'', Critic_approved,
                     Joke_text fixed_joke, Menu_prompt, Writer_wrote ''neutral''],
           ticks = 2\<rparr>) \<and>
   length (jokes (JokeState0\<lparr>jokes := [\<lparr>text = fixed_joke, Joke.category = ''neutral'',
                                           approved = True\<rparr>]\<rparr>)) = 1 \<and>
   length (jokes (JokeState0\<lparr>jokes := [\<lparr>text = fixed_joke, Joke.category = ''neutral'',
                                           approved = False\<rparr>]\<rparr>)) = 1"
proof (intro conjI)
  show "reachable stub_env (console [''n'', ''n'', ''q'']) (Node Writer)
     (JokeState0\<lparr>jokes := [\<lparr>text = fixed_joke, Joke.category = ''neutral'',
                              approved = True\<rparr>]\<rparr>)
     \<lparr>stdin = [''q''],
      stdout = [Menu_prompt, Writer_wrote ''neutral'', Critic_approved, Joke_text fixed_joke,
                Menu_prompt],
      ticks = 1\<rparr>"
    by (rule reachable_second_writer)
qed code_simp+

text \<open>
  C2, on the code. The run of \<open>main\<close> on the lines \<open>n\<close>, \<open>n\<close>, \<open>q\<close> with the fixed joke of 50
  characters executes eight nodes and ends with \<open>quit\<close> set and a history of one joke, the
  second one, approved and of category \<open>neutral\<close>.
\<close>

theorem end_to_end_keeps_one_joke:
  "length fixed_joke = 50 \<and>
   invoke stub_env (console [''n'', ''n'', ''q'']) =
     Inr (\<lparr>jokes = [\<lparr>text = fixed_joke, Joke.category = ''neutral'', approved = True\<rparr>],
           jokes_choice = ''q'', category = ''neutral'', language = ''en'', quit = True\<rparr>,
          \<lparr>stdin = [],
           stdout = [Menu_prompt, Writer_wrote ''neutral'', Critic_approved,
                     Joke_text fixed_joke,
                     Menu_prompt, Writer_wrote ''neutral'', Critic_approved,
                     Joke_text fixed_joke,
                     Menu_prompt, Exiting],
           ticks = 2\<rparr>,
          [Show_menu, Writer, Critic, Show_menu, Writer, Critic, Show_menu, Exit_bot])"
  by (intro conjI) code_simp+

end
